theory Spec2Isabelle
  imports Complex_Main
begin

section \<open>Data model of app.js\<close>

text \<open>
  JSON values as \<^verbatim>\<open>res.json\<close> and the logger receive them. An object literal is
  written with \<open>js_object\<close>: a property whose value is \<^verbatim>\<open>undefined\<close> (\<open>None\<close>)
  is left out, as \<^verbatim>\<open>JSON.stringify\<close> does.
\<close>

datatype json = JNull | JBool bool | JNum real | JStr string
  | JArr "json list" | JObj "(string \<times> json) list"

definition js_fields :: "(string \<times> json option) list \<Rightarrow> (string \<times> json) list" where
  "js_fields fs = List.map_filter (\<lambda>(k, v). map_option (Pair k) v) fs"

definition js_object :: "(string \<times> json option) list \<Rightarrow> json" where
  "js_object fs = JObj (js_fields fs)"

text \<open>
  The error value the pipeline forwards with \<^verbatim>\<open>next(err)\<close>. The handlers read
  \<^verbatim>\<open>err.message\<close>, \<^verbatim>\<open>err.status\<close> and \<^verbatim>\<open>err.stack\<close>; \<open>status\<close> is assigned after
  construction (line 100), so it may be \<^verbatim>\<open>undefined\<close>.
\<close>

record pipeline_error =
  message :: string
  status :: "int option"
  stack :: "string option"

datatype log_level = Debug | Info | Warn | Error

record log_record =
  level :: log_level
  msg :: string
  meta :: "(string \<times> json) list"

text \<open>
  The request: \<open>method'\<close> is \<^verbatim>\<open>req.method\<close>; \<open>url\<close> is \<^verbatim>\<open>req.url\<close>, which the router
  rewrites while a mounted router runs; \<open>originalUrl\<close> keeps the request target
  as received. \<open>mediaType\<close> and \<open>charset\<close> are the media type and the charset
  parameter of the \<^verbatim>\<open>Content-Type\<close> header, in lower case; \<open>contentEncoding\<close> is the
  \<^verbatim>\<open>Content-Encoding\<close> header. \<open>rawBody\<close> is \<open>None\<close> for a request without a body;
  \<open>body\<close> is \<^verbatim>\<open>req.body\<close>.
\<close>

record request =
  method' :: string
  url :: string
  originalUrl :: string
  ip :: string
  userAgent :: "string option"
  mediaType :: "string option"
  charset :: "string option"
  contentEncoding :: "string option"
  rawBody :: "string option"
  body :: "json option"

datatype payload = Text string | Json json

text \<open>
  The response under construction. \<open>sent\<close> is the payload handed to \<^verbatim>\<open>res.send\<close> or
  \<^verbatim>\<open>res.json\<close>; \<open>writes\<close> counts these terminal writes.
\<close>

record response =
  statusCode :: int
  headers :: "string \<rightharpoonup> string"
  sent :: "payload option"
  writes :: nat

text \<open>
  Why a body parser refuses a body: the three errors the parsers of lines 52-53
  forward, with their message.
\<close>

datatype body_fault = BadRequest string | PayloadTooLarge string | UnsupportedMediaType string

text \<open>
  What app.js takes from outside: the process environment and clock, and the
  libraries it calls.
  \<^item> \<open>elapsed_ns\<close> is the monotonic counter behind \<^verbatim>\<open>process.uptime()\<close>: the
    nanoseconds since the process started.
  \<^item> \<open>helmet_headers\<close> are the headers \<^verbatim>\<open>helmet()\<close> sets.
  \<^item> \<open>read_body\<close> is the body parsers' reading of the raw body, given the
    content encoding and the charset: it refuses an unsupported encoding or
    charset, a body over the size limit, a body that cannot be inflated.
  \<^item> \<open>JSON_parse\<close> is the JSON parser (\<open>Inl\<close> its SyntaxError message),
    \<open>qs_parse\<close> the form parser, \<open>form_charset_ok\<close> the charsets the form
    parser accepts.
  \<^item> \<open>emission_fails r\<close> holds when the logger cannot emit record \<open>r\<close> to its
    transports; the logger call returns all the same.
  \<^item> \<open>stack_frames\<close> is the call-frame text of a captured stack.
  \<^item> \<open>match_route pattern url\<close> is the router's test of a route path against
    the request URL; \<open>strip_mount prefix url\<close> is the URL a router mounted at
    \<open>prefix\<close> sees, \<open>None\<close> when the prefix does not match.
\<close>

record env =
  NODE_ENV :: "string option"
  PORT :: "string option"
  elapsed_ns :: nat
  helmet_headers :: "string \<rightharpoonup> string"
  read_body :: "string option \<Rightarrow> string option \<Rightarrow> string \<Rightarrow> body_fault + string"
  JSON_parse :: "string \<Rightarrow> string + json"
  form_charset_ok :: "string \<Rightarrow> bool"
  qs_parse :: "string \<Rightarrow> body_fault + json"
  emission_fails :: "log_record \<Rightarrow> bool"
  stack_frames :: string
  match_route :: "string \<Rightarrow> string \<Rightarrow> bool"
  strip_mount :: "string \<Rightarrow> string \<Rightarrow> string option"

type_synonym exchange = "request \<times> response \<times> log_record list"

text \<open>
  How a handler leaves: \<^verbatim>\<open>next()\<close>, \<^verbatim>\<open>next(err)\<close>, returning without calling
  \<^verbatim>\<open>next\<close>, or throwing.
\<close>

datatype outcome = Next | NextErr pipeline_error | End | Throw pipeline_error

type_synonym handler = "exchange \<Rightarrow> outcome \<times> exchange"

type_synonym error_handler = "pipeline_error \<Rightarrow> exchange \<Rightarrow> outcome \<times> exchange"

datatype layer =
    Use "string option" handler
  | Route string string handler
  | UseErr error_handler

datatype router_result = Done exchange | Out "pipeline_error option" exchange

section \<open>Primitives\<close>

definition production :: "env \<Rightarrow> bool" where
  "production e = (NODE_ENV e = Some ''production'')"

text \<open>The pancake glyph of line 112, as its UTF-8 bytes.\<close>

definition redaction_marker :: string where
  "redaction_marker = [CHR 0xF0, CHR 0x9F, CHR 0xA5, CHR 0x9E]"

text \<open>\<^verbatim>\<open>x || d\<close> on an optional number: \<^verbatim>\<open>undefined\<close> and \<open>0\<close> are falsy.\<close>

definition or_default :: "int option \<Rightarrow> int \<Rightarrow> int" where
  "or_default x d = (case x of None \<Rightarrow> d | Some s \<Rightarrow> if s = 0 then d else s)"

text \<open>
  An Error object of class \<open>name\<close>: the captured stack starts with the class name
  and the message, followed by the call frames.
\<close>

definition create_error :: "env \<Rightarrow> string \<Rightarrow> string \<Rightarrow> int option \<Rightarrow> pipeline_error" where
  "create_error e name m st =
     \<lparr>message = m, status = st, stack = Some (name @ '': '' @ m @ stack_frames e)\<rparr>"

text \<open>\<^verbatim>\<open>new Error(m)\<close>: no status.\<close>

definition new_Error :: "env \<Rightarrow> string \<Rightarrow> pipeline_error" where
  "new_Error e m = create_error e ''Error'' m None"

text \<open>The error a body parser forwards for a fault: status 400, 413 or 415.\<close>

definition fault_error :: "env \<Rightarrow> body_fault \<Rightarrow> pipeline_error" where
  "fault_error e f =
     (case f of
        BadRequest m \<Rightarrow> create_error e ''BadRequestError'' m (Some 400)
      | PayloadTooLarge m \<Rightarrow> create_error e ''PayloadTooLargeError'' m (Some 413)
      | UnsupportedMediaType m \<Rightarrow> create_error e ''UnsupportedMediaTypeError'' m (Some 415))"

text \<open>
  A logger call (\<^verbatim>\<open>logger.info\<close>, \<^verbatim>\<open>logger.warn\<close>, \<^verbatim>\<open>logger.error\<close>) returns; the
  log holds the records that were emitted.
\<close>

definition log_call :: "env \<Rightarrow> log_record \<Rightarrow> log_record list \<Rightarrow> log_record list" where
  "log_call e r lg = (if emission_fails e r then lg else lg @ [r])"

text \<open>\<^verbatim>\<open>process.uptime()\<close>: the seconds since the process started.\<close>

definition process_uptime :: "env \<Rightarrow> real" where
  "process_uptime e = real (elapsed_ns e) / 1000000000"

definition res_status :: "int \<Rightarrow> response \<Rightarrow> response" where
  "res_status c rs = rs\<lparr>statusCode := c\<rparr>"

definition res_set :: "string \<Rightarrow> string \<Rightarrow> response \<Rightarrow> response" where
  "res_set k v rs = rs\<lparr>headers := (headers rs)(k \<mapsto> v)\<rparr>"

definition res_send :: "string \<Rightarrow> response \<Rightarrow> response" where
  "res_send s rs =
     (res_set ''Content-Type'' ''text/html; charset=utf-8'' rs)
       \<lparr>sent := Some (Text s), writes := Suc (writes rs)\<rparr>"

definition res_json :: "json \<Rightarrow> response \<Rightarrow> response" where
  "res_json j rs =
     (res_set ''Content-Type'' ''application/json; charset=utf-8'' rs)
       \<lparr>sent := Some (Json j), writes := Suc (writes rs)\<rparr>"

definition res0 :: response where
  "res0 = \<lparr>statusCode = 200, headers = Map.empty, sent = None, writes = 0\<rparr>"

section \<open>The middleware of app.js, in registration order\<close>

text \<open>Line 49, \<^verbatim>\<open>helmet()\<close>: sets its headers on the response and calls \<^verbatim>\<open>next()\<close>.\<close>

definition helmet_mw :: "env \<Rightarrow> handler" where
  "helmet_mw e = (\<lambda>(rq, rs, lg). (Next, (rq, rs\<lparr>headers := headers rs ++ helmet_headers e\<rparr>, lg)))"

text \<open>
  Line 52, \<^verbatim>\<open>express.json()\<close>. A request without a body, or whose media type is
  not \<^verbatim>\<open>application/json\<close>, passes. Otherwise, in this order: a charset that is
  not a UTF charset is refused with 415; the body is read, and a fault of the
  reading is forwarded with its own status; the text is parsed, and a parse
  failure is forwarded as the parser's SyntaxError with status 400; a success
  fills \<^verbatim>\<open>req.body\<close>.
\<close>

definition json_charset_ok :: "string option \<Rightarrow> bool" where
  "json_charset_ok c = (case c of None \<Rightarrow> True | Some cs \<Rightarrow> take 4 cs = ''utf-'')"

definition unsupported_charset :: "string option \<Rightarrow> body_fault" where
  "unsupported_charset c =
     UnsupportedMediaType (''unsupported charset '' @ (case c of None \<Rightarrow> [] | Some cs \<Rightarrow> cs))"

definition json_body :: "env \<Rightarrow> request \<Rightarrow> pipeline_error + request" where
  "json_body e rq =
     (case rawBody rq of
        None \<Rightarrow> Inr rq
      | Some raw \<Rightarrow>
          if mediaType rq \<noteq> Some ''application/json'' then Inr rq
          else if \<not> json_charset_ok (charset rq)
            then Inl (fault_error e (unsupported_charset (charset rq)))
          else
            (case read_body e (contentEncoding rq) (charset rq) raw of
               Inl f \<Rightarrow> Inl (fault_error e f)
             | Inr s \<Rightarrow>
                 (case JSON_parse e s of
                    Inl m \<Rightarrow> Inl (create_error e ''SyntaxError'' m (Some 400))
                  | Inr v \<Rightarrow> Inr (rq\<lparr>body := Some v\<rparr>))))"

definition json_mw :: "env \<Rightarrow> handler" where
  "json_mw e = (\<lambda>(rq, rs, lg).
     (case json_body e rq of
        Inl err \<Rightarrow> (NextErr err, (rq, rs, lg))
      | Inr rq' \<Rightarrow> (Next, (rq', rs, lg))))"

text \<open>
  Line 53, \<^verbatim>\<open>express.urlencoded({ extended: true })\<close>: the same steps for the media
  type \<^verbatim>\<open>application/x-www-form-urlencoded\<close>, with the form parser, which refuses
  a body with too many parameters or too deep a nesting.
\<close>

definition form_charset_accepted :: "env \<Rightarrow> string option \<Rightarrow> bool" where
  "form_charset_accepted e c = (case c of None \<Rightarrow> True | Some cs \<Rightarrow> form_charset_ok e cs)"

definition urlencoded_body :: "env \<Rightarrow> request \<Rightarrow> pipeline_error + request" where
  "urlencoded_body e rq =
     (case rawBody rq of
        None \<Rightarrow> Inr rq
      | Some raw \<Rightarrow>
          if mediaType rq \<noteq> Some ''application/x-www-form-urlencoded'' then Inr rq
          else if \<not> form_charset_accepted e (charset rq)
            then Inl (fault_error e (unsupported_charset (charset rq)))
          else
            (case read_body e (contentEncoding rq) (charset rq) raw of
               Inl f \<Rightarrow> Inl (fault_error e f)
             | Inr s \<Rightarrow>
                 (case qs_parse e s of
                    Inl f \<Rightarrow> Inl (fault_error e f)
                  | Inr v \<Rightarrow> Inr (rq\<lparr>body := Some v\<rparr>))))"

definition urlencoded_mw :: "env \<Rightarrow> handler" where
  "urlencoded_mw e = (\<lambda>(rq, rs, lg).
     (case urlencoded_body e rq of
        Inl err \<Rightarrow> (NextErr err, (rq, rs, lg))
      | Inr rq' \<Rightarrow> (Next, (rq', rs, lg))))"

text \<open>Lines 56-64, the request logging middleware.\<close>

definition access_record :: "request \<Rightarrow> log_record" where
  "access_record rq =
     \<lparr>level = Info,
      msg = ''Incoming Request: '' @ method' rq @ '' '' @ originalUrl rq,
      meta = js_fields [(''ip'', Some (JStr (ip rq))),
                        (''userAgent'', map_option JStr (userAgent rq))]\<rparr>"

definition access_log_mw :: "env \<Rightarrow> handler" where
  "access_log_mw e = (\<lambda>(rq, rs, lg). (Next, (rq, rs, log_call e (access_record rq) lg)))"

text \<open>Lines 72-74, \<^verbatim>\<open>apiRouter.get('/')\<close>.\<close>

definition api_root_handler :: handler where
  "api_root_handler = (\<lambda>(rq, rs, lg).
     (End, (rq, res_send ''Hello from setup-a-ci Node.js app!'' rs, lg)))"

text \<open>Lines 77-80, \<^verbatim>\<open>apiRouter.get('/health')\<close>.\<close>

definition health_record :: log_record where
  "health_record = \<lparr>level = Info, msg = ''Health check requested.'', meta = []\<rparr>"

definition health_body :: "env \<Rightarrow> json" where
  "health_body e =
     js_object [(''status'', Some (JStr ''healthy'')), (''uptime'', Some (JNum (process_uptime e)))]"

definition health_handler :: "env \<Rightarrow> handler" where
  "health_handler e = (\<lambda>(rq, rs, lg).
     (End, (rq, res_json (health_body e) (res_status 200 rs), log_call e health_record lg)))"

text \<open>Lines 83-85, \<^verbatim>\<open>apiRouter.get('/data')\<close>.\<close>

definition data_handler :: handler where
  "data_handler = (\<lambda>(rq, rs, lg).
     (End, (rq, res_json (js_object [(''message'', Some (JStr ''This is some protected data!''))]) rs,
            lg)))"

text \<open>Lines 91-93, \<^verbatim>\<open>app.get('/')\<close>.\<close>

definition root_handler :: handler where
  "root_handler = (\<lambda>(rq, rs, lg).
     (End, (rq, res_send
        ''Welcome to the Node.js application! Check /api for API endpoints, or /api/health for status.''
        rs, lg)))"

text \<open>Lines 98-103, the 404 middleware.\<close>

definition not_found_error :: "env \<Rightarrow> request \<Rightarrow> pipeline_error" where
  "not_found_error e rq = (new_Error e (''Not Found - '' @ originalUrl rq))\<lparr>status := Some 404\<rparr>"

definition not_found_record :: "request \<Rightarrow> log_record" where
  "not_found_record rq =
     \<lparr>level = Warn, msg = ''404 Not Found: '' @ method' rq @ '' '' @ originalUrl rq, meta = []\<rparr>"

definition not_found_mw :: "env \<Rightarrow> handler" where
  "not_found_mw e = (\<lambda>(rq, rs, lg).
     (NextErr (not_found_error e rq), (rq, rs, log_call e (not_found_record rq) lg)))"

text \<open>Lines 106-122, the general error handling middleware.\<close>

definition error_body :: "env \<Rightarrow> pipeline_error \<Rightarrow> json" where
  "error_body e err =
     js_object [(''message'', Some (JStr (message err))),
                (''stack'', if production e then Some (JStr redaction_marker)
                            else map_option JStr (stack err))]"

definition error_record :: "pipeline_error \<Rightarrow> request \<Rightarrow> log_record" where
  "error_record err rq =
     \<lparr>level = Error,
      msg = ''Error: '' @ message err,
      meta = js_fields [(''status'', Some (JNum (of_int (or_default (status err) 500)))),
                        (''stack'', map_option JStr (stack err)),
                        (''url'', Some (JStr (originalUrl rq))),
                        (''method'', Some (JStr (method' rq)))]\<rparr>"

definition error_handler :: "env \<Rightarrow> error_handler" where
  "error_handler e err = (\<lambda>(rq, rs, lg).
     (let statusCode = or_default (status err) 500;
          rs' = res_json (error_body e err) (res_status statusCode rs)
      in (End, (rq, rs', log_call e (error_record err rq) lg))))"

section \<open>The router\<close>

text \<open>
  The framework's dispatch over a stack of layers, as \<^verbatim>\<open>app.use\<close>, \<^verbatim>\<open>app.get\<close> and
  \<^verbatim>\<open>router.get\<close> build it. A route for GET also answers HEAD. While an error is
  pending only error-handling layers run; without one they are skipped. A handler
  that throws is caught and its exception forwarded like \<^verbatim>\<open>next(err)\<close>. For an
  OPTIONS request the router collects the methods of the routes whose path matches
  and, when the stack is exhausted without an error, answers itself with an
  \<^verbatim>\<open>Allow\<close> header.
\<close>

definition handles_method :: "string \<Rightarrow> string \<Rightarrow> bool" where
  "handles_method m rm = (rm = m \<or> (rm = ''HEAD'' \<and> m = ''GET''))"

definition route_options :: "string \<Rightarrow> string list" where
  "route_options m = (if m = ''GET'' then [''GET'', ''HEAD''] else [m])"

definition append_methods :: "string list \<Rightarrow> string list \<Rightarrow> string list" where
  "append_methods opts ms = opts @ filter (\<lambda>m. m \<notin> set opts) ms"

fun join_comma :: "string list \<Rightarrow> string" where
  "join_comma [] = []"
| "join_comma [x] = x"
| "join_comma (x # y # ys) = x @ '','' @ join_comma (y # ys)"

definition send_options :: "string list \<Rightarrow> exchange \<Rightarrow> exchange" where
  "send_options opts = (\<lambda>(rq, rs, lg).
     (rq, res_send (join_comma opts) (res_set ''Allow'' (join_comma opts) rs), lg))"

definition layer_path :: "env \<Rightarrow> string option \<Rightarrow> string \<Rightarrow> string option" where
  "layer_path e pfx u = (case pfx of None \<Rightarrow> Some u | Some p \<Rightarrow> strip_mount e p u)"

definition restore_url :: "string \<Rightarrow> exchange \<Rightarrow> exchange" where
  "restore_url u = (\<lambda>(rq, rs, lg). (rq\<lparr>url := u\<rparr>, rs, lg))"

fun router_handle ::
  "env \<Rightarrow> layer list \<Rightarrow> pipeline_error option \<Rightarrow> string list \<Rightarrow> exchange \<Rightarrow> router_result" where
  "router_handle e [] err opts (rq, rs, lg) =
     (if method' rq = ''OPTIONS'' \<and> err = None \<and> opts \<noteq> []
      then Done (send_options opts (rq, rs, lg))
      else Out err (rq, rs, lg))"
| "router_handle e (Use pfx h # ls) err opts (rq, rs, lg) =
     (case layer_path e pfx (url rq) of
        None \<Rightarrow> router_handle e ls err opts (rq, rs, lg)
      | Some sub \<Rightarrow>
          (case err of
             Some x \<Rightarrow> router_handle e ls err opts (rq, rs, lg)
           | None \<Rightarrow>
               (case h (rq\<lparr>url := sub\<rparr>, rs, lg) of
                  (Next, c) \<Rightarrow> router_handle e ls None opts (restore_url (url rq) c)
                | (NextErr x, c) \<Rightarrow> router_handle e ls (Some x) opts (restore_url (url rq) c)
                | (Throw x, c) \<Rightarrow> router_handle e ls (Some x) opts (restore_url (url rq) c)
                | (End, c) \<Rightarrow> Done (restore_url (url rq) c))))"
| "router_handle e (Route m p h # ls) err opts (rq, rs, lg) =
     (if \<not> match_route e p (url rq) then router_handle e ls err opts (rq, rs, lg)
      else if err \<noteq> None then router_handle e ls err opts (rq, rs, lg)
      else if handles_method m (method' rq) then
        (case h (rq, rs, lg) of
           (Next, c) \<Rightarrow> router_handle e ls None opts c
         | (NextErr x, c) \<Rightarrow> router_handle e ls (Some x) opts c
         | (Throw x, c) \<Rightarrow> router_handle e ls (Some x) opts c
         | (End, c) \<Rightarrow> Done c)
      else if method' rq = ''OPTIONS''
        then router_handle e ls err (append_methods opts (route_options m)) (rq, rs, lg)
      else router_handle e ls err opts (rq, rs, lg))"
| "router_handle e (UseErr h # ls) err opts (rq, rs, lg) =
     (case err of
        None \<Rightarrow> router_handle e ls None opts (rq, rs, lg)
      | Some x \<Rightarrow>
          (case h x (rq, rs, lg) of
             (Next, c) \<Rightarrow> router_handle e ls None opts c
           | (NextErr y, c) \<Rightarrow> router_handle e ls (Some y) opts c
           | (Throw y, c) \<Rightarrow> router_handle e ls (Some y) opts c
           | (End, c) \<Rightarrow> Done c))"

text \<open>A router used as middleware (line 88): leaving the router is \<^verbatim>\<open>next\<close>.\<close>

definition router_mw :: "env \<Rightarrow> layer list \<Rightarrow> handler" where
  "router_mw e ls c =
     (case router_handle e ls None [] c of
        Done c' \<Rightarrow> (End, c')
      | Out None c' \<Rightarrow> (Next, c')
      | Out (Some x) c' \<Rightarrow> (NextErr x, c'))"

text \<open>
  The framework's last resort when the application's stack is exhausted: nothing
  is written on a response that has been written already; otherwise it answers
  404, or the error's status when that is a 4xx or 5xx code, else 500.
\<close>

definition finalhandler :: "pipeline_error option \<Rightarrow> exchange \<Rightarrow> exchange" where
  "finalhandler err = (\<lambda>(rq, rs, lg).
     if 0 < writes rs then (rq, rs, lg)
     else (case err of
             None \<Rightarrow>
               (rq, res_send (''Cannot '' @ method' rq @ '' '' @ originalUrl rq) (res_status 404 rs), lg)
           | Some x \<Rightarrow>
               (rq, res_send (message x)
                  (res_status (case status x of
                                 Some s \<Rightarrow> if 400 \<le> s \<and> s \<le> 599 then s else 500
                               | None \<Rightarrow> 500) rs), lg)))"

section \<open>The application\<close>

definition apiRouter :: "env \<Rightarrow> layer list" where
  "apiRouter e =
     [Route ''GET'' ''/'' api_root_handler,
      Route ''GET'' ''/health'' (health_handler e),
      Route ''GET'' ''/data'' data_handler]"

definition app_stack :: "env \<Rightarrow> layer list" where
  "app_stack e =
     [Use None (helmet_mw e),
      Use None (json_mw e),
      Use None (urlencoded_mw e),
      Use None (access_log_mw e),
      Use (Some ''/api'') (router_mw e (apiRouter e)),
      Route ''GET'' ''/'' root_handler,
      Use None (not_found_mw e),
      UseErr (error_handler e)]"

definition settle :: "router_result \<Rightarrow> exchange" where
  "settle r = (case r of Done c \<Rightarrow> c | Out err c \<Rightarrow> finalhandler err c)"

text \<open>
  One request through the application, with the log so far: the exchange starts
  with a fresh response, and \<^verbatim>\<open>req.originalUrl\<close> is the received \<^verbatim>\<open>req.url\<close>.
\<close>

definition received :: "request \<Rightarrow> request" where
  "received rq = rq\<lparr>originalUrl := url rq\<rparr>"

definition app_handle :: "env \<Rightarrow> request \<Rightarrow> log_record list \<Rightarrow> exchange" where
  "app_handle e rq lg =
     settle (router_handle e (app_stack e) None [] (received rq, res0, lg))"

definition respond :: "env \<Rightarrow> request \<Rightarrow> log_record list \<Rightarrow> response" where
  "respond e rq lg = fst (snd (app_handle e rq lg))"


text \<open>
  The error that the error handler consumes for a request, if any: the error
  pending when the layers registered before the error handler are done.
\<close>

definition upstream_stack :: "env \<Rightarrow> layer list" where
  "upstream_stack e = butlast (app_stack e)"

definition pending_error :: "env \<Rightarrow> request \<Rightarrow> log_record list \<Rightarrow> pipeline_error option" where
  "pending_error e rq lg =
     (case router_handle e (upstream_stack e) None [] (received rq, res0, lg) of
        Done c \<Rightarrow> None
      | Out err c \<Rightarrow> err)"

section \<open>Process-level fault handlers\<close>

text \<open>
  Lines 125-155. The process: \<open>exited\<close> is the code given to \<^verbatim>\<open>process.exit\<close>, once
  called; \<open>on_close\<close> holds the callbacks handed to \<^verbatim>\<open>server.close\<close>, each
  represented by the exit code it passes to \<^verbatim>\<open>process.exit\<close>. They run when the
  listener has closed.
\<close>

record process =
  exited :: "int option"
  listening :: bool
  on_close :: "int list"
  plog :: "log_record list"

datatype pevent =
    ServerError "string option" pipeline_error
  | UnhandledRejection json
  | UncaughtException pipeline_error
  | ServerClosed

definition port :: "env \<Rightarrow> string" where
  "port e = (case PORT e of None \<Rightarrow> ''3000'' | Some p \<Rightarrow> if p = [] then ''3000'' else p)"

definition process_exit :: "int \<Rightarrow> process \<Rightarrow> process" where
  "process_exit c p = p\<lparr>exited := Some c\<rparr>"

definition server_close :: "int \<Rightarrow> process \<Rightarrow> process" where
  "server_close cb p = p\<lparr>listening := False, on_close := on_close p @ [cb]\<rparr>"

definition logger_error :: "env \<Rightarrow> log_record \<Rightarrow> process \<Rightarrow> process" where
  "logger_error e r p = p\<lparr>plog := log_call e r (plog p)\<rparr>"

definition port_in_use_record :: "env \<Rightarrow> log_record" where
  "port_in_use_record e =
     \<lparr>level = Error,
      msg = ''Port '' @ port e @ '' is already in use. Please stop the other process or choose a different port.'',
      meta = []\<rparr>"

definition startup_failed_record :: "pipeline_error \<Rightarrow> log_record" where
  "startup_failed_record err =
     \<lparr>level = Error, msg = ''Server startup failed: '' @ message err,
      meta = js_fields [(''stack'', map_option JStr (stack err))]\<rparr>"

definition rejection_record :: "json \<Rightarrow> log_record" where
  "rejection_record reason =
     \<lparr>level = Error, msg = ''Unhandled Rejection at:'', meta = [(''reason'', reason)]\<rparr>"

definition exception_record :: "pipeline_error \<Rightarrow> log_record" where
  "exception_record err =
     \<lparr>level = Error, msg = ''Uncaught Exception:'',
      meta = js_fields [(''message'', Some (JStr (message err))),
                        (''stack'', map_option JStr (stack err))]\<rparr>"

text \<open>Lines 127-135, the listener's \<^verbatim>\<open>error\<close> event; \<open>code\<close> is \<^verbatim>\<open>err.code\<close>.\<close>

definition on_server_error :: "env \<Rightarrow> string option \<Rightarrow> pipeline_error \<Rightarrow> process \<Rightarrow> process" where
  "on_server_error e code err p =
     (if code = Some ''EADDRINUSE''
      then process_exit 1 (logger_error e (port_in_use_record e) p)
      else process_exit 1 (logger_error e (startup_failed_record err) p))"

text \<open>Lines 138-145.\<close>

definition on_unhandledRejection :: "env \<Rightarrow> json \<Rightarrow> process \<Rightarrow> process" where
  "on_unhandledRejection e reason p = server_close 1 (logger_error e (rejection_record reason) p)"

text \<open>Lines 148-155.\<close>

definition on_uncaughtException :: "env \<Rightarrow> pipeline_error \<Rightarrow> process \<Rightarrow> process" where
  "on_uncaughtException e err p = server_close 1 (logger_error e (exception_record err) p)"

text \<open>The listener has closed: the first pending callback runs.\<close>

definition server_closed :: "process \<Rightarrow> process" where
  "server_closed p =
     (case on_close p of [] \<Rightarrow> p | c # cs \<Rightarrow> process_exit c (p\<lparr>on_close := cs\<rparr>))"

text \<open>One event of the process; nothing runs after \<^verbatim>\<open>process.exit\<close>.\<close>

definition proc_step :: "env \<Rightarrow> process \<Rightarrow> pevent \<Rightarrow> process" where
  "proc_step e p ev =
     (if exited p \<noteq> None then p
      else (case ev of
              ServerError code err \<Rightarrow> on_server_error e code err p
            | UnhandledRejection reason \<Rightarrow> on_unhandledRejection e reason p
            | UncaughtException err \<Rightarrow> on_uncaughtException e err p
            | ServerClosed \<Rightarrow> server_closed p))"

fun run_events :: "env \<Rightarrow> process \<Rightarrow> pevent list \<Rightarrow> process" where
  "run_events e p [] = p"
| "run_events e p (ev # evs) = run_events e (proc_step e p ev) evs"

definition started :: process where
  "started = \<lparr>exited = None, listening = True, on_close = [], plog = []\<rparr>"

text \<open>Every exit code the process has used or has pending is 1.\<close>

definition exits_with_1 :: "process \<Rightarrow> bool" where
  "exits_with_1 p =
     ((\<forall>c \<in> set (on_close p). c = 1) \<and> (case exited p of None \<Rightarrow> True | Some c \<Rightarrow> c = 1))"

section \<open>Reading a result\<close>

definition res_of :: "outcome \<times> exchange \<Rightarrow> response" where
  "res_of x = fst (snd (snd x))"

definition log_of :: "outcome \<times> exchange \<Rightarrow> log_record list" where
  "log_of x = snd (snd (snd x))"

definition json_field :: "string \<Rightarrow> json \<Rightarrow> json option" where
  "json_field k j = (case j of JObj kvs \<Rightarrow> map_of kvs k | _ \<Rightarrow> None)"

definition sent_field :: "string \<Rightarrow> response \<Rightarrow> json option" where
  "sent_field k rs = (case sent rs of Some (Json j) \<Rightarrow> json_field k j | _ \<Rightarrow> None)"

text \<open>The response the error handler writes for \<open>err\<close> on \<open>rs\<close> (lines 107-113).\<close>

definition error_response :: "env \<Rightarrow> pipeline_error \<Rightarrow> response \<Rightarrow> response" where
  "error_response e err rs = res_json (error_body e err) (res_status (or_default (status err) 500) rs)"

text \<open>
  An Error object as the stages of app.js forward it or as a handler throws it:
  its status is absent or an HTTP error status (400 to 599), and it has a
  captured stack, which is not empty.
\<close>

definition error_object :: "pipeline_error \<Rightarrow> bool" where
  "error_object err =
     ((case status err of None \<Rightarrow> True | Some s \<Rightarrow> 400 \<le> s \<and> s \<le> 599)
      \<and> (case stack err of None \<Rightarrow> False | Some t \<Rightarrow> t \<noteq> []))"

text \<open>
  The two body-parsing stages in sequence, and whether they forward an error
  for a request.
\<close>

definition parse_body :: "env \<Rightarrow> request \<Rightarrow> pipeline_error + request" where
  "parse_body e rq =
     (case json_body e rq of
        Inl err \<Rightarrow> Inl err
      | Inr rq' \<Rightarrow> urlencoded_body e rq')"

definition body_rejected :: "env \<Rightarrow> request \<Rightarrow> bool" where
  "body_rejected e rq = isl (parse_body e rq)"

text \<open>
  Matching a (method, path) pair against the routes of a stack: \<open>route_matches\<close>
  when some route has the path and answers the method, \<open>path_registered\<close> when
  some route has the path, whatever its method.
\<close>

definition route_matches :: "env \<Rightarrow> layer list \<Rightarrow> string \<Rightarrow> string \<Rightarrow> bool" where
  "route_matches e ls u m =
     list_ex (\<lambda>l. case l of Route rm p h \<Rightarrow> match_route e p u \<and> handles_method rm m | _ \<Rightarrow> False) ls"

definition path_registered :: "env \<Rightarrow> layer list \<Rightarrow> string \<Rightarrow> bool" where
  "path_registered e ls u =
     list_ex (\<lambda>l. case l of Route rm p h \<Rightarrow> match_route e p u | _ \<Rightarrow> False) ls"

text \<open>
  The request matches a registered route: one of the API router below its mount
  point, or the root route of line 91.
\<close>

definition route_hit :: "env \<Rightarrow> request \<Rightarrow> bool" where
  "route_hit e rq =
     ((case strip_mount e ''/api'' (url rq) of
         None \<Rightarrow> False
       | Some sub \<Rightarrow> route_matches e (apiRouter e) sub (method' rq))
      \<or> route_matches e [Route ''GET'' ''/'' root_handler] (url rq) (method' rq))"

text \<open>
  An OPTIONS request for a path that the API router has a route for: the router
  answers it itself.
\<close>

definition options_answered :: "env \<Rightarrow> request \<Rightarrow> bool" where
  "options_answered e rq =
     (method' rq = ''OPTIONS'' \<and>
      (case strip_mount e ''/api'' (url rq) of
         None \<Rightarrow> False
       | Some sub \<Rightarrow> path_registered e (apiRouter e) sub))"

text \<open>The response after \<^verbatim>\<open>helmet()\<close> has run on a fresh response.\<close>

definition hardened :: "env \<Rightarrow> response" where
  "hardened e = res0\<lparr>headers := helmet_headers e\<rparr>"



section \<open>The dispatch in closed form\<close>

text \<open>
  How a run of layers ends for the response: answered, failed with an error
  pending on a response not yet written, or left unanswered.
\<close>

datatype verdict = Answered response | Failed pipeline_error response | Unanswered response

definition verdict_of :: "router_result \<Rightarrow> verdict" where
  "verdict_of r =
     (case r of
        Done (rq, rs, lg) \<Rightarrow> Answered rs
      | Out None (rq, rs, lg) \<Rightarrow> Unanswered rs
      | Out (Some x) (rq, rs, lg) \<Rightarrow> Failed x rs)"

text \<open>From the root route on: the route of line 91, else the 404 middleware.\<close>

definition root_verdict :: "env \<Rightarrow> request \<Rightarrow> response \<Rightarrow> verdict" where
  "root_verdict e rq rs =
     (if match_route e ''/'' (url rq) \<and> handles_method ''GET'' (method' rq)
      then Answered (res_send ''Welcome to the Node.js application! Check /api for API endpoints, or /api/health for status.'' rs)
      else Failed (not_found_error e rq) rs)"

text \<open>When the mount point matched and the API router sees \<open>sub\<close>.\<close>

definition api_verdict :: "env \<Rightarrow> request \<Rightarrow> string \<Rightarrow> response \<Rightarrow> verdict" where
  "api_verdict e rq sub rs =
     (if handles_method ''GET'' (method' rq) then
        (if match_route e ''/'' sub then Answered (res_send ''Hello from setup-a-ci Node.js app!'' rs)
         else if match_route e ''/health'' sub then
           Answered (res_json (health_body e) (res_status 200 rs))
         else if match_route e ''/data'' sub then
           Answered (res_json (js_object [(''message'', Some (JStr ''This is some protected data!''))]) rs)
         else root_verdict e rq rs)
      else if method' rq = ''OPTIONS'' \<and> path_registered e (apiRouter e) sub then
        Answered (res_send ''GET,HEAD'' (res_set ''Allow'' ''GET,HEAD'' rs))
      else root_verdict e rq rs)"

definition dispatch_verdict :: "env \<Rightarrow> request \<Rightarrow> response \<Rightarrow> verdict" where
  "dispatch_verdict e rq rs =
     (case strip_mount e ''/api'' (url rq) of
        None \<Rightarrow> root_verdict e rq rs
      | Some sub \<Rightarrow> api_verdict e rq sub rs)"

definition app_verdict :: "env \<Rightarrow> request \<Rightarrow> verdict" where
  "app_verdict e rq =
     (case parse_body e (received rq) of
        Inl err \<Rightarrow> Failed err (hardened e)
      | Inr rq' \<Rightarrow> dispatch_verdict e (received rq) (hardened e))"

section \<open>A concrete environment and concrete requests\<close>

text \<open>
  An environment to evaluate the application in: literal route paths, a mount
  prefix that matches itself and everything below it, a body reader that knows
  three content encodings and the 100kb limit, a JSON parser that accepts only
  the empty object, a logger that emits.
\<close>

definition literal_strip :: "string \<Rightarrow> string \<Rightarrow> string option" where
  "literal_strip p u =
     (if u = p then Some ''/''
      else if take (Suc (length p)) u = p @ ''/'' then Some (drop (length p) u)
      else None)"

definition sample_read :: "string option \<Rightarrow> string option \<Rightarrow> string \<Rightarrow> body_fault + string" where
  "sample_read enc cs raw =
     (if enc \<notin> {None, Some ''identity'', Some ''gzip'', Some ''deflate''}
        then Inl (UnsupportedMediaType ''unsupported content encoding'')
      else if 102400 < length raw then Inl (PayloadTooLarge ''request entity too large'')
      else Inr raw)"

definition sample_env :: "string option \<Rightarrow> env" where
  "sample_env mode =
     \<lparr>NODE_ENV = mode,
      PORT = None,
      elapsed_ns = 12500000000,
      helmet_headers = [''X-Content-Type-Options'' \<mapsto> ''nosniff'', ''X-Frame-Options'' \<mapsto> ''SAMEORIGIN''],
      read_body = sample_read,
      JSON_parse = (\<lambda>s. if s = ''{}'' then Inr (JObj []) else Inl ''Unexpected token''),
      form_charset_ok = (\<lambda>cs. cs = ''utf-8''),
      qs_parse = (\<lambda>s. Inr (JObj [])),
      emission_fails = (\<lambda>r. False),
      stack_frames = '' at app.js'',
      match_route = (\<lambda>p u. p = u),
      strip_mount = literal_strip\<rparr>"


definition plain_request :: "string \<Rightarrow> string \<Rightarrow> request" where
  "plain_request m u =
     \<lparr>method' = m, url = u, originalUrl = u, ip = ''127.0.0.1'', userAgent = Some ''curl'',
      mediaType = None, charset = None, contentEncoding = None, rawBody = None, body = None\<rparr>"

definition json_request :: "string \<Rightarrow> string \<Rightarrow> string \<Rightarrow> request" where
  "json_request m u raw =
     (plain_request m u)\<lparr>mediaType := Some ''application/json'', rawBody := Some raw\<rparr>"


definition traced_error :: pipeline_error where
  "traced_error =
     \<lparr>message = ''db down'', status = None, stack = Some ''Error: db down at db.js:7''\<rparr>"

section \<open>The error handler\<close>

lemmas response_defs =
  res_json_def res_send_def res_set_def res_status_def res0_def

lemma error_handler_eq:
  "error_handler e err (rq, rs, lg) =
     (End, (rq, error_response e err rs, log_call e (error_record err rq) lg))"
  by (simp add: error_handler_def error_response_def Let_def)

lemma writes_error_response: "writes (error_response e err rs) = Suc (writes rs)"
  by (simp add: error_response_def response_defs)

lemma statusCode_error_response:
  "statusCode (error_response e err rs) = or_default (status err) 500"
  by (simp add: error_response_def response_defs)

lemma sent_error_response:
  "sent (error_response e err rs) = Some (Json (error_body e err))"
  by (simp add: error_response_def response_defs)

lemma headers_error_response:
  "headers (error_response e x rs) = (headers rs)(''Content-Type'' \<mapsto> ''application/json; charset=utf-8'')"
  by (simp add: error_response_def response_defs)

lemma error_body_fields:
  "error_body e err =
     JObj ((''message'', JStr (message err)) #
           (if production e then [(''stack'', JStr redaction_marker)]
            else (case stack err of None \<Rightarrow> [] | Some t \<Rightarrow> [(''stack'', JStr t)])))"
  by (simp add: error_body_def js_object_def js_fields_def List.map_filter_simps
      split: option.splits)

section \<open>The dispatch, layer by layer\<close>

lemma restore_same [simp]: "restore_url (url rq) (rq, rs, lg) = (rq, rs, lg)"
  by (simp add: restore_url_def)

lemma verdict_of_Done [simp]: "verdict_of (Done c) = Answered (fst (snd c))"
  by (cases c) (simp add: verdict_of_def)

lemma verdict_of_Out_None [simp]: "verdict_of (Out None c) = Unanswered (fst (snd c))"
  by (cases c) (simp add: verdict_of_def)

lemma verdict_of_Out_Some [simp]: "verdict_of (Out (Some x) c) = Failed x (fst (snd c))"
  by (cases c) (simp add: verdict_of_def)

lemma verdict_after_error_handler:
  "verdict_of (router_handle e (ls @ [UseErr (error_handler e)]) err opts c) =
     (case verdict_of (router_handle e ls err opts c) of
        Failed x rs \<Rightarrow> Answered (error_response e x rs)
      | Answered rs \<Rightarrow> Answered rs
      | Unanswered rs \<Rightarrow> Unanswered rs)"
proof (induction ls arbitrary: err opts c)
  case Nil
  obtain rq rs lg where c: "c = (rq, rs, lg)" by (cases c) auto
  show ?case
    by (cases err) (simp_all add: c error_handler_eq)
next
  case (Cons l ls)
  obtain rq rs lg where c: "c = (rq, rs, lg)" by (cases c) auto
  show ?case
  proof (cases l)
    case (Use pfx h)
    show ?thesis
    proof (cases "layer_path e pfx (url rq)")
      case None
      then show ?thesis by (simp add: c Use Cons.IH)
    next
      case (Some sub)
      show ?thesis
      proof (cases err)
        case None
        obtain out c' where h: "h (rq\<lparr>url := sub\<rparr>, rs, lg) = (out, c')"
          by (cases "h (rq\<lparr>url := sub\<rparr>, rs, lg)") auto
        show ?thesis
          by (cases out) (simp_all add: c Use Some None h Cons.IH restore_url_def split: prod.splits)
      next
        case (Some x)
        then show ?thesis using \<open>layer_path e pfx (url rq) = Some sub\<close>
          by (simp add: c Use Cons.IH)
      qed
    qed
  next
    case (Route m p h)
    obtain out c' where h: "h (rq, rs, lg) = (out, c')"
      by (cases "h (rq, rs, lg)") auto
    show ?thesis
      by (cases out) (simp_all add: c Route h Cons.IH restore_url_def split: prod.splits)
  next
    case (UseErr g)
    show ?thesis
    proof (cases err)
      case None
      then show ?thesis by (simp add: c UseErr Cons.IH)
    next
      case (Some x)
      obtain out c' where g: "g x (rq, rs, lg) = (out, c')"
        by (cases "g x (rq, rs, lg)") auto
      show ?thesis
        by (cases out) (simp_all add: c UseErr Some g Cons.IH restore_url_def split: prod.splits)
    qed
  qed
qed

lemma verdict_nf:
  "verdict_of (router_handle e [Use None (not_found_mw e)] err opts (rq, rs, lg)) =
     (case err of None \<Rightarrow> Failed (not_found_error e rq) rs | Some x \<Rightarrow> Failed x rs)"
  by (simp add: layer_path_def not_found_mw_def restore_url_def split: option.splits)

lemma verdict_root:
  "verdict_of (router_handle e [Route ''GET'' ''/'' root_handler, Use None (not_found_mw e)]
      err opts (rq, rs, lg)) =
     (case err of None \<Rightarrow> root_verdict e rq rs | Some x \<Rightarrow> Failed x rs)"
  using verdict_nf [of e _ _ rq rs lg]
  by (simp add: root_handler_def root_verdict_def del: router_handle.simps(2) split: option.splits)

lemma api_router:
  "router_handle e (apiRouter e) None [] (rq, rs, lg) =
     (if handles_method ''GET'' (method' rq) then
        (if match_route e ''/'' (url rq) then
           Done (rq, res_send ''Hello from setup-a-ci Node.js app!'' rs, lg)
         else if match_route e ''/health'' (url rq) then
           Done (rq, res_json (health_body e) (res_status 200 rs), log_call e health_record lg)
         else if match_route e ''/data'' (url rq) then
           Done (rq, res_json (js_object [(''message'', Some (JStr ''This is some protected data!''))]) rs, lg)
         else Out None (rq, rs, lg))
      else if method' rq = ''OPTIONS'' \<and> path_registered e (apiRouter e) (url rq) then
        Done (send_options [''GET'', ''HEAD''] (rq, rs, lg))
      else Out None (rq, rs, lg))"
  by (simp add: apiRouter_def api_root_handler_def health_handler_def data_handler_def
      path_registered_def append_methods_def route_options_def)

lemma verdict_dispatch:
  "verdict_of (router_handle e
      [Use (Some ''/api'') (router_mw e (apiRouter e)),
       Route ''GET'' ''/'' root_handler, Use None (not_found_mw e)]
      err opts (rq, rs, lg))
   = (case err of None \<Rightarrow> dispatch_verdict e rq rs | Some x \<Rightarrow> Failed x rs)"
proof (cases err)
  case (Some x)
  then show ?thesis
    using verdict_root [of e "Some x" opts rq rs lg]
    by (simp add: layer_path_def del: router_handle.simps(3) split: option.splits)
next
  case None
  show ?thesis
  proof (cases "strip_mount e ''/api'' (url rq)")
    case n: None
    then show ?thesis
      using None verdict_root [of e None opts rq rs lg]
      by (simp add: layer_path_def dispatch_verdict_def del: router_handle.simps(3))
  next
    case (Some sub)
    have r: "rq\<lparr>url := sub, url := url rq\<rparr> = rq" by simp
    show ?thesis
      using None Some verdict_root [of e None opts rq rs]
      by (simp add: layer_path_def dispatch_verdict_def api_verdict_def
          router_mw_def api_router restore_url_def send_options_def
          del: router_handle.simps(3))
  qed
qed

lemma step_helmet:
  "router_handle e (Use None (helmet_mw e) # ls) None opts (rq, rs, lg) =
     router_handle e ls None opts (rq, rs\<lparr>headers := headers rs ++ helmet_headers e\<rparr>, lg)"
  by (simp add: layer_path_def helmet_mw_def)

lemma step_json:
  "router_handle e (Use None (json_mw e) # ls) None opts (rq, rs, lg) =
     (case json_body e rq of
        Inl err \<Rightarrow> router_handle e ls (Some err) opts (rq, rs, lg)
      | Inr rq' \<Rightarrow> router_handle e ls None opts (rq'\<lparr>url := url rq\<rparr>, rs, lg))"
  by (simp add: layer_path_def json_mw_def restore_url_def split: sum.splits)

lemma step_urlencoded:
  "router_handle e (Use None (urlencoded_mw e) # ls) err opts (rq, rs, lg) =
     (case err of
        Some x \<Rightarrow> router_handle e ls err opts (rq, rs, lg)
      | None \<Rightarrow>
          (case urlencoded_body e rq of
             Inl x \<Rightarrow> router_handle e ls (Some x) opts (rq, rs, lg)
           | Inr rq' \<Rightarrow> router_handle e ls None opts (rq'\<lparr>url := url rq\<rparr>, rs, lg)))"
  by (simp add: layer_path_def urlencoded_mw_def restore_url_def split: option.splits sum.splits)

lemma step_access:
  "router_handle e (Use None (access_log_mw e) # ls) err opts (rq, rs, lg) =
     (case err of
        Some x \<Rightarrow> router_handle e ls err opts (rq, rs, lg)
      | None \<Rightarrow> router_handle e ls None opts (rq, rs, log_call e (access_record rq) lg))"
  by (simp add: layer_path_def access_log_mw_def restore_url_def split: option.splits)

lemma json_body_only:
  "json_body e rq = Inr rq' \<Longrightarrow> \<exists>b. rq' = rq\<lparr>body := b\<rparr>"
  by (auto simp: json_body_def split: option.splits if_splits sum.splits
      intro: exI [of _ "body rq"])

lemma urlencoded_body_only:
  "urlencoded_body e rq = Inr rq' \<Longrightarrow> \<exists>b. rq' = rq\<lparr>body := b\<rparr>"
  by (auto simp: urlencoded_body_def split: option.splits if_splits sum.splits
      intro: exI [of _ "body rq"])

lemma parse_body_only:
  "parse_body e rq = Inr rq' \<Longrightarrow> \<exists>b. rq' = rq\<lparr>body := b\<rparr>"
  by (auto simp: parse_body_def split: sum.splits
      dest!: json_body_only urlencoded_body_only)

lemma dispatch_verdict_body [simp]:
  "dispatch_verdict e (rq\<lparr>body := b\<rparr>) rs = dispatch_verdict e rq rs"
  by (simp add: dispatch_verdict_def api_verdict_def root_verdict_def
      not_found_error_def split: option.splits)

lemma hardened_eq: "res0\<lparr>headers := headers res0 ++ helmet_headers e\<rparr> = hardened e"
  by (simp add: hardened_def res0_def)

lemma upstream_stack_eq:
  "upstream_stack e =
     [Use None (helmet_mw e), Use None (json_mw e), Use None (urlencoded_mw e),
      Use None (access_log_mw e), Use (Some ''/api'') (router_mw e (apiRouter e)),
      Route ''GET'' ''/'' root_handler, Use None (not_found_mw e)]"
  by (simp add: upstream_stack_def app_stack_def)

lemma app_stack_split: "app_stack e = upstream_stack e @ [UseErr (error_handler e)]"
  by (simp add: upstream_stack_def app_stack_def)

lemma verdict_upstream:
  "verdict_of (router_handle e (upstream_stack e) None [] (received rq, res0, lg)) = app_verdict e rq"
proof (cases "json_body e (received rq)")
  case (Inl err)
  then show ?thesis
    by (simp add: upstream_stack_eq step_helmet step_json step_urlencoded step_access
        hardened_eq verdict_dispatch app_verdict_def parse_body_def
        del: router_handle.simps)
next
  case (Inr rq1)
  from json_body_only [OF Inr] obtain b1 where rq1: "rq1 = (received rq)\<lparr>body := b1\<rparr>" ..
  show ?thesis
  proof (cases "urlencoded_body e rq1")
    case (Inl err)
    then show ?thesis
      using Inr
      by (simp add: upstream_stack_eq step_helmet step_json step_urlencoded step_access
          hardened_eq verdict_dispatch app_verdict_def parse_body_def rq1
          del: router_handle.simps)
  next
    case r2: (Inr rq2)
    from urlencoded_body_only [OF r2] obtain b2 where rq2: "rq2 = rq1\<lparr>body := b2\<rparr>" ..
    show ?thesis
      using Inr r2
      by (simp add: upstream_stack_eq step_helmet step_json step_urlencoded step_access
          hardened_eq verdict_dispatch app_verdict_def parse_body_def rq1 rq2
          del: router_handle.simps)
  qed
qed

lemma pending_of_verdict:
  "(case r of Done c \<Rightarrow> None | Out err c \<Rightarrow> err) =
     (case verdict_of r of Failed x rs \<Rightarrow> Some x | Answered rs \<Rightarrow> None | Unanswered rs \<Rightarrow> None)"
proof (cases r)
  case (Done c)
  then show ?thesis by simp
next
  case (Out err c)
  then show ?thesis by (cases err) simp_all
qed

lemma pending_error_eq:
  "pending_error e rq lg =
     (case app_verdict e rq of Failed x rs \<Rightarrow> Some x | Answered rs \<Rightarrow> None | Unanswered rs \<Rightarrow> None)"
  by (simp add: pending_error_def pending_of_verdict verdict_upstream)

lemma settle_answered:
  assumes "verdict_of r = Answered rs"
  shows "fst (snd (settle r)) = rs"
proof (cases r)
  case (Done c)
  with assms show ?thesis by (simp add: settle_def)
next
  case (Out err c)
  with assms show ?thesis by (cases err) simp_all
qed

lemma verdict_app:
  "verdict_of (router_handle e (app_stack e) None [] (received rq, res0, lg)) =
     (case app_verdict e rq of
        Failed x rs \<Rightarrow> Answered (error_response e x rs)
      | Answered rs \<Rightarrow> Answered rs
      | Unanswered rs \<Rightarrow> Unanswered rs)"
  by (simp only: app_stack_split verdict_after_error_handler verdict_upstream)

lemma respond_answered: "app_verdict e rq = Answered rs \<Longrightarrow> respond e rq lg = rs"
  using verdict_app [of e rq lg]
  by (simp add: respond_def app_handle_def settle_answered)

lemma respond_failed:
  "app_verdict e rq = Failed x rs \<Longrightarrow> respond e rq lg = error_response e x rs"
  using verdict_app [of e rq lg]
  by (simp add: respond_def app_handle_def settle_answered)

lemma app_verdict_cases:
  "(\<exists>rs. app_verdict e rq = Answered rs) \<or> (\<exists>x rs. app_verdict e rq = Failed x rs)"
  by (simp add: app_verdict_def dispatch_verdict_def api_verdict_def root_verdict_def
      split: sum.splits option.splits)

section \<open>The errors that reach the error handler\<close>

lemma create_error_object: "400 \<le> st \<Longrightarrow> st \<le> 599 \<Longrightarrow> error_object (create_error e name m (Some st))"
  by (simp add: error_object_def create_error_def)

lemma fault_error_object: "error_object (fault_error e f)"
  by (cases f) (simp_all add: fault_error_def create_error_object)

lemma fault_error_status: "status (fault_error e f) \<in> {Some 400, Some 413, Some 415}"
  by (cases f) (simp_all add: fault_error_def create_error_def)

lemma syntax_error_object: "error_object (create_error e ''SyntaxError'' m (Some 400))"
  by (simp add: create_error_object)

lemma syntax_error_status: "status (create_error e name m st) = st"
  by (simp add: create_error_def)

lemma json_body_error:
  "json_body e rq = Inl err \<Longrightarrow>
   error_object err \<and> status err \<in> {Some 400, Some 413, Some 415}"
  using fault_error_status [of e]
  by (auto simp: json_body_def fault_error_object syntax_error_object syntax_error_status
      split: option.splits if_splits sum.splits)

lemma urlencoded_body_error:
  "urlencoded_body e rq = Inl err \<Longrightarrow>
   error_object err \<and> status err \<in> {Some 400, Some 413, Some 415}"
  using fault_error_status [of e]
  by (auto simp: urlencoded_body_def fault_error_object
      split: option.splits if_splits sum.splits)

lemma parse_body_error:
  "parse_body e rq = Inl err \<Longrightarrow>
   error_object err \<and> status err \<in> {Some 400, Some 413, Some 415}"
  by (auto simp: parse_body_def split: sum.splits dest: json_body_error urlencoded_body_error)

lemma not_found_error_object: "error_object (not_found_error e rq)"
  by (simp add: error_object_def not_found_error_def new_Error_def create_error_def)

lemma dispatch_failed:
  "dispatch_verdict e rq rs = Failed x rs' \<Longrightarrow> x = not_found_error e rq \<and> rs' = rs"
  by (auto simp: dispatch_verdict_def api_verdict_def root_verdict_def
      split: option.splits if_splits)

lemma json_body_originalUrl:
  "json_body e (rq\<lparr>originalUrl := u\<rparr>) =
     (case json_body e rq of Inl err \<Rightarrow> Inl err | Inr rq' \<Rightarrow> Inr (rq'\<lparr>originalUrl := u\<rparr>))"
  by (simp add: json_body_def split: option.splits sum.splits)

lemma urlencoded_body_originalUrl:
  "urlencoded_body e (rq\<lparr>originalUrl := u\<rparr>) =
     (case urlencoded_body e rq of Inl err \<Rightarrow> Inl err | Inr rq' \<Rightarrow> Inr (rq'\<lparr>originalUrl := u\<rparr>))"
  by (simp add: urlencoded_body_def split: option.splits sum.splits)

lemma parse_body_received:
  "parse_body e (received rq) =
     (case parse_body e rq of Inl err \<Rightarrow> Inl err | Inr rq' \<Rightarrow> Inr (received rq'\<lparr>originalUrl := url rq\<rparr>))"
  by (simp add: parse_body_def received_def json_body_originalUrl urlencoded_body_originalUrl
      split: sum.splits)

lemma body_rejected_received: "isl (parse_body e (received rq)) = body_rejected e rq"
  by (simp add: body_rejected_def parse_body_received split: sum.splits)

lemma app_verdict_accepted:
  "\<not> body_rejected e rq \<Longrightarrow> app_verdict e rq = dispatch_verdict e (received rq) (hardened e)"
  using body_rejected_received [of e rq]
  by (cases "parse_body e (received rq)") (simp_all add: app_verdict_def)

lemma pending_error_cases:
  assumes "pending_error e rq lg = Some err"
  shows "parse_body e (received rq) = Inl err
         \<or> (\<not> body_rejected e rq \<and> err = not_found_error e (received rq))"
proof (cases "parse_body e (received rq)")
  case (Inl x)
  with assms show ?thesis by (simp add: pending_error_eq app_verdict_def)
next
  case (Inr rq')
  then have nb: "\<not> body_rejected e rq"
    using body_rejected_received [of e rq] by simp
  from assms Inr have "\<exists>rs. dispatch_verdict e (received rq) (hardened e) = Failed err rs"
    by (simp add: pending_error_eq app_verdict_def split: verdict.splits)
  with nb show ?thesis by (auto dest: dispatch_failed)
qed

lemma pending_error_object: "pending_error e rq lg = Some err \<Longrightarrow> error_object err"
  by (auto dest!: pending_error_cases dest: parse_body_error simp: not_found_error_object)

lemma pending_error_respond:
  assumes "pending_error e rq lg = Some err"
  shows "respond e rq lg = error_response e err (hardened e)"
proof -
  from assms obtain rs where v: "app_verdict e rq = Failed err rs"
    by (auto simp: pending_error_eq split: verdict.splits)
  have "rs = hardened e"
  proof (cases "parse_body e (received rq)")
    case (Inl x)
    with v show ?thesis by (simp add: app_verdict_def)
  next
    case (Inr rq')
    with v show ?thesis by (auto simp: app_verdict_def dest: dispatch_failed)
  qed
  with v show ?thesis by (simp add: respond_failed)
qed

lemma fault_not_marker: "stack (fault_error e f) \<noteq> Some redaction_marker"
  by (cases f) (simp_all add: fault_error_def create_error_def redaction_marker_def)

lemma json_body_not_marker: "json_body e rq = Inl err \<Longrightarrow> stack err \<noteq> Some redaction_marker"
  using fault_not_marker [of e]
  by (auto simp: json_body_def create_error_def redaction_marker_def
      split: option.splits if_splits sum.splits)

lemma urlencoded_body_not_marker:
  "urlencoded_body e rq = Inl err \<Longrightarrow> stack err \<noteq> Some redaction_marker"
  using fault_not_marker [of e]
  by (auto simp: urlencoded_body_def split: option.splits if_splits sum.splits)

lemma parse_body_not_marker:
  "parse_body e rq = Inl err \<Longrightarrow> stack err \<noteq> Some redaction_marker"
  by (auto simp: parse_body_def split: sum.splits
      dest: json_body_not_marker urlencoded_body_not_marker)

lemma not_found_not_marker: "stack (not_found_error e rq) \<noteq> Some redaction_marker"
  by (simp add: not_found_error_def new_Error_def create_error_def redaction_marker_def)

lemma pending_not_marker:
  "pending_error e rq lg = Some err \<Longrightarrow> stack err \<noteq> Some redaction_marker"
  using not_found_not_marker [of e "received rq"]
  by (auto dest!: pending_error_cases dest: parse_body_not_marker)

section \<open>Answers and sequences of requests\<close>

lemmas route_defs =
  route_hit_def options_answered_def route_matches_def path_registered_def apiRouter_def
  handles_method_def

lemmas sample_defs =
  sample_env_def plain_request_def json_request_def literal_strip_def sample_read_def

lemmas body_defs =
  body_rejected_def parse_body_def json_body_def urlencoded_body_def json_charset_ok_def
  form_charset_accepted_def

lemmas verdict_defs =
  app_verdict_def dispatch_verdict_def api_verdict_def root_verdict_def received_def









lemma headers_dispatch_answered:
  "dispatch_verdict e rq rs = Answered rs' \<Longrightarrow>
   (k \<noteq> ''Content-Type'' \<longrightarrow> k \<noteq> ''Allow'' \<longrightarrow> headers rs' k = headers rs k)
   \<and> (headers rs k = Some v \<longrightarrow> (\<exists>w. headers rs' k = Some w))"
  by (auto simp: dispatch_verdict_def api_verdict_def root_verdict_def response_defs
      split: option.splits if_splits)






section \<open>The terminal error stage\<close>

text \<open>
  C2. For an Error object, the terminal error stage sets the response status to
  the error's status field, or to 500 when the field is absent, and writes
  exactly once: a JSON object with exactly two fields, \<open>message\<close>, equal to the
  error's message, and \<open>stack\<close>. Every error that reaches the stage in the
  application is such an object, and the application's response is then the
  stage's response to it.
\<close>

theorem error_handler_response:
  "(error_object err \<longrightarrow>
      statusCode (res_of (error_handler e err (rq, rs, lg))) =
        (case status err of None \<Rightarrow> 500 | Some s \<Rightarrow> s)
      \<and> (\<exists>t. sent (res_of (error_handler e err (rq, rs, lg))) =
             Some (Json (JObj [(''message'', JStr (message err)), (''stack'', JStr t)])))
      \<and> writes (res_of (error_handler e err (rq, rs, lg))) = Suc (writes rs))
   \<and> (pending_error e rq' lg' = Some err' \<longrightarrow>
        error_object err'
        \<and> respond e rq' lg' = res_of (error_handler e err' (received rq', hardened e, lg')))"
proof -
  have a: "error_object err \<longrightarrow>
      statusCode (res_of (error_handler e err (rq, rs, lg))) =
        (case status err of None \<Rightarrow> 500 | Some s \<Rightarrow> s)
      \<and> (\<exists>t. sent (res_of (error_handler e err (rq, rs, lg))) =
             Some (Json (JObj [(''message'', JStr (message err)), (''stack'', JStr t)])))
      \<and> writes (res_of (error_handler e err (rq, rs, lg))) = Suc (writes rs)"
    by (auto simp: error_object_def error_handler_eq res_of_def statusCode_error_response
        sent_error_response writes_error_response error_body_fields or_default_def
        split: option.splits)
  have b: "pending_error e rq' lg' = Some err' \<longrightarrow>
        error_object err'
        \<and> respond e rq' lg' = res_of (error_handler e err' (received rq', hardened e, lg'))"
    by (auto simp: error_handler_eq res_of_def
        dest: pending_error_object pending_error_respond)
  from a b show ?thesis by blast
qed

theorem error_handler_response_witness:
  "error_object traced_error
   \<and> statusCode (res_of (error_handler (sample_env (Some ''production'')) traced_error
       (plain_request ''GET'' ''/api/data'', res0, []))) = 500
   \<and> pending_error (sample_env None) (plain_request ''GET'' ''/nonexistent'') [] =
       Some (not_found_error (sample_env None) (plain_request ''GET'' ''/nonexistent''))
   \<and> error_object (not_found_error (sample_env None) (plain_request ''GET'' ''/nonexistent''))"
proof -
  have p: "pending_error (sample_env None) (plain_request ''GET'' ''/nonexistent'') [] =
       Some (not_found_error (sample_env None) (plain_request ''GET'' ''/nonexistent''))"
    by (simp add: pending_error_eq verdict_defs body_defs sample_defs route_defs)
  show ?thesis
    using error_handler_response [where err = traced_error
        and e = "sample_env (Some ''production'')"
        and rq = "plain_request ''GET'' ''/api/data''" and rs = res0 and lg = "[]"]
      error_handler_response [where e = "sample_env None"
        and rq' = "plain_request ''GET'' ''/nonexistent''" and lg' = "[]"
        and err' = "not_found_error (sample_env None) (plain_request ''GET'' ''/nonexistent'')"]
    by (simp add: p traced_error_def error_object_def)
qed

text \<open>
  C3. For an Error object the \<open>stack\<close> field of the error body is the fixed
  marker in production and the error's own, non-empty stack otherwise. Every
  error that reaches the error handler in the application is such an object,
  its stack is never the marker itself, and the application's response is the
  handler's response to it.
\<close>

theorem error_stack_field:
  "(error_object err \<longrightarrow>
      (\<exists>t. stack err = Some t \<and> t \<noteq> []
           \<and> sent_field ''stack'' (res_of (error_handler e err (rq, rs, lg))) =
               Some (JStr (if production e then redaction_marker else t))))
   \<and> (pending_error e rq' lg' = Some err' \<longrightarrow>
        error_object err' \<and> stack err' \<noteq> Some redaction_marker
        \<and> respond e rq' lg' = res_of (error_handler e err' (received rq', hardened e, lg')))"
proof -
  have a: "error_object err \<longrightarrow>
      (\<exists>t. stack err = Some t \<and> t \<noteq> []
           \<and> sent_field ''stack'' (res_of (error_handler e err (rq, rs, lg))) =
               Some (JStr (if production e then redaction_marker else t)))"
    by (auto simp: error_object_def error_handler_eq res_of_def sent_field_def
        sent_error_response error_body_fields json_field_def split: option.splits)
  have b: "pending_error e rq' lg' = Some err' \<longrightarrow>
        error_object err' \<and> stack err' \<noteq> Some redaction_marker
        \<and> respond e rq' lg' = res_of (error_handler e err' (received rq', hardened e, lg'))"
    by (auto simp: error_handler_eq res_of_def
        dest: pending_error_object pending_error_respond pending_not_marker)
  from a b show ?thesis by blast
qed

theorem error_stack_field_witness:
  "error_object traced_error
   \<and> sent_field ''stack'' (res_of (error_handler (sample_env None) traced_error
       (plain_request ''GET'' ''/api/data'', res0, []))) = Some (JStr ''Error: db down at db.js:7'')
   \<and> sent_field ''stack'' (res_of (error_handler (sample_env (Some ''production'')) traced_error
       (plain_request ''GET'' ''/api/data'', res0, []))) = Some (JStr redaction_marker)
   \<and> pending_error (sample_env None) (json_request ''POST'' ''/api/data'' ''{bad'') [] =
       Some (create_error (sample_env None) ''SyntaxError'' ''Unexpected token'' (Some 400))
   \<and> stack (create_error (sample_env None) ''SyntaxError'' ''Unexpected token'' (Some 400))
       \<noteq> Some redaction_marker"
proof -
  have p: "pending_error (sample_env None) (json_request ''POST'' ''/api/data'' ''{bad'') [] =
       Some (create_error (sample_env None) ''SyntaxError'' ''Unexpected token'' (Some 400))"
    by (simp add: pending_error_eq verdict_defs body_defs sample_defs)
  have np: "\<not> production (sample_env None)"
    by (simp add: production_def sample_env_def)
  have pp: "production (sample_env (Some ''production''))"
    by (simp add: production_def sample_env_def)
  show ?thesis
    using error_stack_field [where err = traced_error and e = "sample_env None"
        and rq = "plain_request ''GET'' ''/api/data''" and rs = res0 and lg = "[]"
        and rq' = "json_request ''POST'' ''/api/data'' ''{bad''" and lg' = "[]"
        and err' = "create_error (sample_env None) ''SyntaxError'' ''Unexpected token'' (Some 400)"]
      error_stack_field [where err = traced_error and e = "sample_env (Some ''production'')"
        and rq = "plain_request ''GET'' ''/api/data''" and rs = res0 and lg = "[]"]
      np pp
    by (simp add: p traced_error_def error_object_def)
qed

text \<open>
  C10. When the error handler's log record is emitted, the log grows by exactly
  one record, of level \<open>Error\<close>, whose \<open>stack\<close> attribute is the error's own
  stack, in production as in any other mode: in production the response body
  carries the marker while the log record still carries the raw stack.
\<close>

theorem error_log_keeps_stack:
  "\<not> emission_fails e (error_record err rq) \<Longrightarrow>
   log_of (error_handler e err (rq, rs, lg)) = lg @ [error_record err rq]
   \<and> level (error_record err rq) = Error
   \<and> map_of (meta (error_record err rq)) ''stack'' = map_option JStr (stack err)
   \<and> (production e \<longrightarrow>
        sent_field ''stack'' (res_of (error_handler e err (rq, rs, lg))) = Some (JStr redaction_marker))"
  by (simp add: error_handler_eq log_of_def res_of_def log_call_def error_record_def js_fields_def
      List.map_filter_simps sent_field_def sent_error_response error_body_fields json_field_def
      split: option.splits)

theorem error_log_keeps_stack_witness:
  "production (sample_env (Some ''production''))
   \<and> map_of (meta (last (log_of (error_handler (sample_env (Some ''production'')) traced_error
        (plain_request ''GET'' ''/api/data'', res0, []))))) ''stack''
      = Some (JStr ''Error: db down at db.js:7'')
   \<and> sent_field ''stack'' (res_of (error_handler (sample_env (Some ''production'')) traced_error
        (plain_request ''GET'' ''/api/data'', res0, []))) = Some (JStr redaction_marker)"
  using error_log_keeps_stack [of "sample_env (Some ''production'')" traced_error
      "plain_request ''GET'' ''/api/data''" res0 "[]"]
  by (simp add: traced_error_def sample_env_def production_def)

section \<open>Unmatched routes\<close>

text \<open>
  C1, as the code has it. Take a request whose body the body-parsing stages do
  not reject. If its (method, path) pair matches no registered route and it is
  not an OPTIONS request for a path registered under \<^verbatim>\<open>/api\<close> (the router answers
  those itself), then the response has status 404 and its body is the error
  envelope whose \<open>message\<close> is \<^verbatim>\<open>Not Found - \<close> followed by the request URL as
  received (\<^verbatim>\<open>req.originalUrl\<close>).
\<close>

theorem unmatched_route_not_found:
  assumes "\<not> body_rejected e rq" and "\<not> route_hit e rq" and "\<not> options_answered e rq"
  shows "statusCode (respond e rq lg) = 404
   \<and> sent (respond e rq lg) =
       Some (Json (JObj [(''message'', JStr (''Not Found - '' @ url rq)),
                         (''stack'', JStr (if production e then redaction_marker
                                           else ''Error: Not Found - '' @ url rq @ stack_frames e))]))"
proof -
  have "dispatch_verdict e (received rq) (hardened e)
          = Failed (not_found_error e (received rq)) (hardened e)"
    using assms(2,3)
    by (auto simp: dispatch_verdict_def api_verdict_def root_verdict_def route_defs received_def
        split: option.splits)
  then have "respond e rq lg = error_response e (not_found_error e (received rq)) (hardened e)"
    by (simp add: app_verdict_accepted [OF assms(1)] respond_failed)
  then show ?thesis
    by (simp add: statusCode_error_response sent_error_response error_body_fields or_default_def
        not_found_error_def new_Error_def create_error_def received_def)
qed

theorem unmatched_route_not_found_witness:
  "statusCode (respond (sample_env None) (plain_request ''GET'' ''/nonexistent'') []) = 404
   \<and> sent (respond (sample_env None) (plain_request ''GET'' ''/nonexistent'') []) =
       Some (Json (JObj [(''message'', JStr ''Not Found - /nonexistent''),
                         (''stack'', JStr ''Error: Not Found - /nonexistent at app.js'')]))"
  using unmatched_route_not_found [of "sample_env None" "plain_request ''GET'' ''/nonexistent''" "[]"]
  by (simp add: route_defs body_defs sample_defs production_def)

text \<open>
  C1 as stated fails for a request that matches no route but carries a malformed
  JSON body: the body-parsing stage forwards its error first, and the response
  is 400.
\<close>

theorem unmatched_malformed_counterexample:
  "\<not> route_hit (sample_env None) (json_request ''POST'' ''/nonexistent'' ''{bad'')
   \<and> statusCode (respond (sample_env None) (json_request ''POST'' ''/nonexistent'' ''{bad'') []) = 400"
proof -
  have "app_verdict (sample_env None) (json_request ''POST'' ''/nonexistent'' ''{bad'') =
          Failed (create_error (sample_env None) ''SyntaxError'' ''Unexpected token'' (Some 400))
            (hardened (sample_env None))"
    by (simp add: verdict_defs body_defs sample_defs)
  then show ?thesis
    by (simp add: respond_failed statusCode_error_response or_default_def create_error_def
        route_defs sample_defs)
qed

section \<open>Every request is answered once\<close>




section \<open>Malformed JSON bodies\<close>




section \<open>The health check\<close>




section \<open>Security headers\<close>

text \<open>
  C5. Every header that \<^verbatim>\<open>helmet()\<close> sets is present on the response to every
  request, whichever stage answers it (a route, the 404 path, the error handler,
  the router's OPTIONS reply), and it keeps helmet's value unless it is one of
  the two headers the response writers set themselves, \<^verbatim>\<open>Content-Type\<close> and
  \<^verbatim>\<open>Allow\<close>.
\<close>

theorem helmet_headers_on_every_response:
  assumes "helmet_headers e k = Some v"
  shows "(\<exists>w. headers (respond e rq lg) k = Some w)
   \<and> (k \<noteq> ''Content-Type'' \<longrightarrow> k \<noteq> ''Allow'' \<longrightarrow> headers (respond e rq lg) k = Some v)"
proof -
  have h: "headers (hardened e) k = Some v"
    using assms by (simp add: hardened_def)
  show ?thesis
  proof (cases "parse_body e (received rq)")
    case (Inl err)
    then have "app_verdict e rq = Failed err (hardened e)" by (simp add: app_verdict_def)
    then show ?thesis using h by (auto simp: respond_failed headers_error_response)
  next
    case (Inr rq')
    then have v: "app_verdict e rq = dispatch_verdict e (received rq) (hardened e)"
      by (simp add: app_verdict_def)
    show ?thesis
    proof (cases "dispatch_verdict e (received rq) (hardened e)")
      case (Answered rs)
      with v h headers_dispatch_answered [OF Answered, of k v] show ?thesis
        by (auto simp: respond_answered)
    next
      case (Failed x rs)
      with v h dispatch_failed [OF Failed] show ?thesis
        by (auto simp: respond_failed headers_error_response)
    next
      case (Unanswered rs)
      with v app_verdict_cases [of e rq] show ?thesis by simp
    qed
  qed
qed

theorem helmet_headers_on_every_response_witness:
  "helmet_headers (sample_env None) ''X-Frame-Options'' = Some ''SAMEORIGIN''
   \<and> headers (respond (sample_env None) (plain_request ''GET'' ''/nonexistent'') []) ''X-Frame-Options''
       = Some ''SAMEORIGIN''"
  using helmet_headers_on_every_response [of "sample_env None" "''X-Frame-Options''" "''SAMEORIGIN''"
      "plain_request ''GET'' ''/nonexistent''" "[]"]
  by (simp add: sample_env_def)

section \<open>A failing access log\<close>



section \<open>Process-fatal faults\<close>

lemma step_exits_with_1: "exits_with_1 p \<Longrightarrow> exits_with_1 (proc_step e p ev)"
  by (cases ev)
     (auto simp: exits_with_1_def proc_step_def on_server_error_def on_unhandledRejection_def
       on_uncaughtException_def server_closed_def process_exit_def server_close_def
       logger_error_def
       split: if_splits list.splits option.splits)

lemma run_exits_with_1: "exits_with_1 p \<Longrightarrow> exits_with_1 (run_events e p evs)"
  by (induction evs arbitrary: p) (simp_all add: step_exits_with_1)

lemma started_exits_with_1: "exits_with_1 started"
  by (simp add: exits_with_1_def started_def)

text \<open>
  C8. Take the process in any state it can reach from start-up without having
  exited. On a listener error, \<^verbatim>\<open>EADDRINUSE\<close> or any other, the handler exits
  with code 1 at once. On an unhandled rejection and on an uncaught exception
  the handler stops the listener, and the process exits with code 1 when the
  listener has closed. In each case the handler's record, of level \<open>Error\<close>, is
  appended to the log when the logger emits it. No sequence of events makes the
  process exit with any other code.
\<close>

theorem fatal_faults_exit_1:
  assumes "p = run_events e started evs" and "exited p = None"
  shows "exited (proc_step e p (ServerError code err)) = Some 1
   \<and> (\<not> emission_fails e (if code = Some ''EADDRINUSE'' then port_in_use_record e
                             else startup_failed_record err) \<longrightarrow>
        (\<exists>r. plog (proc_step e p (ServerError code err)) = plog p @ [r] \<and> level r = Error))
   \<and> exited (proc_step e p (UnhandledRejection reason)) = None
   \<and> \<not> listening (proc_step e p (UnhandledRejection reason))
   \<and> exited (server_closed (proc_step e p (UnhandledRejection reason))) = Some 1
   \<and> (\<not> emission_fails e (rejection_record reason) \<longrightarrow>
        (\<exists>r. plog (proc_step e p (UnhandledRejection reason)) = plog p @ [r] \<and> level r = Error))
   \<and> exited (proc_step e p (UncaughtException err)) = None
   \<and> \<not> listening (proc_step e p (UncaughtException err))
   \<and> exited (server_closed (proc_step e p (UncaughtException err))) = Some 1
   \<and> (\<not> emission_fails e (exception_record err) \<longrightarrow>
        (\<exists>r. plog (proc_step e p (UncaughtException err)) = plog p @ [r] \<and> level r = Error))
   \<and> (exited (run_events e started evs') = Some c \<longrightarrow> c = 1)"
proof -
  have inv: "exits_with_1 p"
    using run_exits_with_1 [OF started_exits_with_1] assms(1) by simp
  have closing: "exited (server_closed (server_close 1 (logger_error e r p))) = Some 1" for r
    using inv
    by (cases "on_close p")
       (simp_all add: exits_with_1_def server_closed_def server_close_def process_exit_def
         logger_error_def)
  have bind: "exited (proc_step e p (ServerError code err)) = Some 1
   \<and> (\<not> emission_fails e (if code = Some ''EADDRINUSE'' then port_in_use_record e
                             else startup_failed_record err) \<longrightarrow>
        (\<exists>r. plog (proc_step e p (ServerError code err)) = plog p @ [r] \<and> level r = Error))"
    using assms(2)
    by (simp add: proc_step_def on_server_error_def log_call_def process_exit_def logger_error_def
        port_in_use_record_def startup_failed_record_def)
  have rej: "exited (proc_step e p (UnhandledRejection reason)) = None
   \<and> \<not> listening (proc_step e p (UnhandledRejection reason))
   \<and> exited (server_closed (proc_step e p (UnhandledRejection reason))) = Some 1
   \<and> (\<not> emission_fails e (rejection_record reason) \<longrightarrow>
        (\<exists>r. plog (proc_step e p (UnhandledRejection reason)) = plog p @ [r] \<and> level r = Error))"
    using assms(2) closing [of "rejection_record reason"]
    by (simp add: proc_step_def on_unhandledRejection_def)
       (simp add: server_close_def logger_error_def log_call_def rejection_record_def)
  have exc: "exited (proc_step e p (UncaughtException err)) = None
   \<and> \<not> listening (proc_step e p (UncaughtException err))
   \<and> exited (server_closed (proc_step e p (UncaughtException err))) = Some 1
   \<and> (\<not> emission_fails e (exception_record err) \<longrightarrow>
        (\<exists>r. plog (proc_step e p (UncaughtException err)) = plog p @ [r] \<and> level r = Error))"
    using assms(2) closing [of "exception_record err"]
    by (simp add: proc_step_def on_uncaughtException_def)
       (simp add: server_close_def logger_error_def log_call_def exception_record_def)
  have safe: "exited (run_events e started evs') = Some c \<longrightarrow> c = 1"
    using run_exits_with_1 [OF started_exits_with_1, of e evs']
    by (auto simp: exits_with_1_def)
  from bind rej exc safe show ?thesis by blast
qed

theorem fatal_faults_exit_1_witness:
  "exited (proc_step (sample_env None) started (ServerError (Some ''EADDRINUSE'') traced_error)) = Some 1
   \<and> level (last (plog (proc_step (sample_env None) started
        (ServerError (Some ''EADDRINUSE'') traced_error)))) = Error
   \<and> exited (server_closed (proc_step (sample_env None) started (UncaughtException traced_error)))
       = Some 1"
  using fatal_faults_exit_1 [where p = started and e = "sample_env None" and evs = "[]"
      and code = "Some ''EADDRINUSE''" and err = traced_error and reason = JNull
      and evs' = "[]" and c = 1]
  by (auto simp: started_def sample_env_def)

end
